theory Spec2Isabelle
  imports Main "HOL-Library.Sublist"
begin

section \<open>Python strings\<close>

text \<open>
  A Python \<open>str\<close> is a sequence of Unicode code points. The sanitizer splits and strips
  on Unicode line breaks and white space (code points beyond one byte among them), so a
  string is modelled as a list of code points, and a literal of the source is written
  \<open>str ''...''\<close>. Code point 96 is the grave accent that makes up a code fence, 35 is
  the comment marker, 10 the line feed and 9 the tab.
\<close>

type_synonym pystr = "nat list"

definition str :: "string \<Rightarrow> pystr" where
  "str s = map of_char s"

definition fence :: pystr where
  "fence = [96, 96, 96]"

text \<open>\<open>str.isspace\<close> on one code point: what \<open>str.strip()\<close> removes.\<close>

definition isspace :: "nat \<Rightarrow> bool" where
  "isspace c \<longleftrightarrow>
     (9 \<le> c \<and> c \<le> 13) \<or> (28 \<le> c \<and> c \<le> 32) \<or> c = 133 \<or> c = 160 \<or> c = 5760 \<or>
     (8192 \<le> c \<and> c \<le> 8202) \<or> c = 8232 \<or> c = 8233 \<or> c = 8239 \<or> c = 8287 \<or>
     c = 12288"

text \<open>The code points at which \<open>str.splitlines()\<close> ends a line.\<close>

definition islinebreak :: "nat \<Rightarrow> bool" where
  "islinebreak c \<longleftrightarrow>
     (10 \<le> c \<and> c \<le> 13) \<or> (28 \<le> c \<and> c \<le> 30) \<or> c = 133 \<or> c = 8232 \<or> c = 8233"

definition py_strip :: "pystr \<Rightarrow> pystr" where
  "py_strip s = rev (dropWhile isspace (rev (dropWhile isspace s)))"

text \<open>
  \<open>str.splitlines()\<close>: the line breaks are dropped, a carriage return followed by a
  line feed is one break, and a break at the very end opens no further line.
\<close>

fun splitlines :: "pystr \<Rightarrow> pystr list" where
  "splitlines [] = []"
| "splitlines (c # cs) =
     (if islinebreak c then
        [] # (case cs of
                [] \<Rightarrow> []
              | d # ds \<Rightarrow> if c = 13 \<and> d = 10 then splitlines ds else splitlines cs)
      else (case splitlines cs of
              [] \<Rightarrow> [[c]]
            | l # ls \<Rightarrow> (c # l) # ls))"

text \<open>\<open>sep.join(parts)\<close>.\<close>

fun py_join :: "pystr \<Rightarrow> pystr list \<Rightarrow> pystr" where
  "py_join sep [] = []"
| "py_join sep [l] = l"
| "py_join sep (l # ls) = l @ sep @ py_join sep ls"

text \<open>
  \<open>s.replace(old, new)\<close>: the occurrences of \<open>old\<close> are found from the left and do not
  overlap. (With an empty \<open>old\<close> Python puts \<open>new\<close> before every code point and at the
  end.)
\<close>

function py_replace :: "pystr \<Rightarrow> pystr \<Rightarrow> pystr \<Rightarrow> pystr" where
  "py_replace [] new s = new @ concat (map (\<lambda>c. c # new) s)"
| "py_replace (a # old) new [] = []"
| "py_replace (a # old) new (c # cs) =
     (if prefix (a # old) (c # cs) then new @ py_replace (a # old) new (drop (length old) cs)
      else c # py_replace (a # old) new cs)"
  by pat_completeness auto
termination
  by (relation "measure (\<lambda>(old, new, s). length s)") auto

text \<open>
  The regular expression of the first substitution is a fence, then as many of the
  letters \<open>yamlYAML\<close> as there are, then a line feed. \<open>match_open_fence s\<close> is what
  follows the match when the expression matches at the start of \<open>s\<close>. The letters are
  taken greedily; giving some back cannot help, since a letter is not a line feed.
\<close>

definition fence_tag_char :: "nat \<Rightarrow> bool" where
  "fence_tag_char c \<longleftrightarrow> c \<in> set (str ''yamlYAML'')"

definition match_open_fence :: "pystr \<Rightarrow> pystr option" where
  "match_open_fence s =
     (if prefix fence s then
        (case dropWhile fence_tag_char (drop 3 s) of
           [] \<Rightarrow> None
         | d # rest \<Rightarrow> if d = 10 then Some rest else None)
      else None)"

lemma match_open_fence_shorter:
  assumes "match_open_fence s = Some r"
  shows "length r < length s"
proof -
  from assms obtain d where d: "dropWhile fence_tag_char (drop 3 s) = d # r"
    by (auto simp: match_open_fence_def split: if_splits list.splits)
  have "length (dropWhile fence_tag_char (drop 3 s)) \<le> length (drop 3 s)"
    by (rule length_dropWhile_le)
  with d show ?thesis by simp
qed

text \<open>\<open>re.sub(fence [yamlYAML]* newline, '', text)\<close>: every match, from the left, is deleted.\<close>

function sub_open_fence :: "pystr \<Rightarrow> pystr" where
  "sub_open_fence [] = []"
| "sub_open_fence (c # cs) =
     (case match_open_fence (c # cs) of
        Some rest \<Rightarrow> sub_open_fence rest
      | None \<Rightarrow> c # sub_open_fence cs)"
  by pat_completeness auto
termination
  by (relation "measure length") (auto dest: match_open_fence_shorter)

text \<open>
  \<open>re.sub(r'#.*$', '', text, flags=re.MULTILINE)\<close>: from a comment marker, \<open>.*\<close> runs
  up to the next line feed (the only code point \<open>.\<close> refuses) or to the end of the text,
  where \<open>$\<close> holds; the line feed itself stays.
\<close>

function sub_comment :: "pystr \<Rightarrow> pystr" where
  "sub_comment [] = []"
| "sub_comment (c # cs) =
     (if c = 35 then sub_comment (dropWhile (\<lambda>d. d \<noteq> 10) cs)
      else c # sub_comment cs)"
  by pat_completeness auto
termination
  by (relation "measure length") (auto simp: length_dropWhile_le less_Suc_eq_le)

subsection \<open>The sanitizer\<close>

text \<open>\<open>ICLAgent._clean_response\<close> (icl_agent.py).\<close>

definition clean_response :: "pystr \<Rightarrow> pystr" where
  "clean_response text0 =
     (if text0 = [] then []
      else
        let text1 = sub_open_fence text0;
            text2 = py_replace fence [] text1;
            text3 = sub_comment text2;
            lines = splitlines (py_strip text3);
            cleaned_lines =
              map (py_replace [9] (str ''  '')) (filter (\<lambda>line. py_strip line \<noteq> []) lines)
        in py_join [10] cleaned_lines)"

text \<open>\<open>StreamlitICLAgent._clean_response\<close> (app.py), a second copy of the same steps.\<close>

definition st_clean_response :: "pystr \<Rightarrow> pystr" where
  "st_clean_response text0 =
     (if text0 = [] then []
      else
        let text1 = sub_open_fence text0;
            text2 = py_replace fence [] text1;
            text3 = sub_comment text2;
            lines = splitlines (py_strip text3);
            cleaned_lines =
              map (py_replace [9] (str ''  '')) (filter (\<lambda>line. py_strip line \<noteq> []) lines)
        in py_join [10] cleaned_lines)"

subsection \<open>Texts the sanitizer leaves alone\<close>

text \<open>
  The line breaks of a text are all line feeds; and no line of the stripped text is
  blank (each has a code point that is not white space).
\<close>

definition only_lf_breaks :: "pystr \<Rightarrow> bool" where
  "only_lf_breaks t = list_all (\<lambda>c. \<not> islinebreak c \<or> c = 10) t"

definition no_blank_line :: "pystr \<Rightarrow> bool" where
  "no_blank_line t = list_all (\<lambda>l. \<not> list_all isspace l) (splitlines (py_strip t))"

section \<open>Documents, exceptions and the outside world\<close>

text \<open>
  A parsed document is whatever \<open>yaml.safe_load_all\<close> builds: a mapping (a Python dict,
  kept as an association list in insertion order), a sequence, a string, an integer, a
  boolean, \<open>None\<close>, or another object (a float, a date, bytes), kept by its \<open>repr\<close>.
\<close>

datatype yaml =
    YNull
  | YBool bool
  | YInt int
  | YStr pystr
  | YOther pystr
  | YSeq "yaml list"
  | YMap "(yaml \<times> yaml) list"

text \<open>
  The string values of a document, at any depth (a document that is a string is its own
  value), and what the round-trip property calls comment-like content in one of them: a
  comment marker, a tab or a fence.
\<close>

fun string_values :: "yaml \<Rightarrow> pystr list" where
  "string_values (YStr s) = [s]"
| "string_values (YSeq ds) = concat (map string_values ds)"
| "string_values (YMap m) = concat (map (\<lambda>kv. string_values (snd kv)) m)"
| "string_values d = []"

definition comment_free :: "pystr \<Rightarrow> bool" where
  "comment_free s \<longleftrightarrow> 35 \<notin> set s \<and> 9 \<notin> set s \<and> \<not> sublist fence s"

text \<open>
  An exception is its class and its message \<open>str(e)\<close>. \<open>YAMLError\<close> stands for
  \<open>yaml.YAMLError\<close> and its subclasses, \<open>OtherException\<close> for any further subclass of
  \<open>Exception\<close>. Every handler but the parser's is \<open>except Exception\<close>, which lets only
  interrupts and interpreter exits through; those are not modelled.
\<close>

datatype exn_class = YAMLError | ValueError | FileNotFoundError | OtherException pystr

datatype exn = Exn exn_class pystr

fun exn_str :: "exn \<Rightarrow> pystr" where
  "exn_str (Exn c m) = m"

fun is_YAMLError :: "exn \<Rightarrow> bool" where
  "is_YAMLError (Exn c m) = (c = YAMLError)"

fun is_Exception :: "exn \<Rightarrow> bool" where
  "is_Exception (Exn c m) = True"

text \<open>
  What the agents call but do not define: the YAML library, the remote model, the PDF
  reader, the file system and the clock. Each call either raises or returns.
\<close>

record env =
  safe_load_all :: "pystr \<Rightarrow> exn + yaml list"
    \<comment> \<open>\<open>list(yaml.safe_load_all(content))\<close>\<close>
  yaml_dump :: "yaml \<Rightarrow> exn + pystr"
    \<comment> \<open>\<open>yaml.dump(data, default_flow_style=False)\<close>\<close>
  generate_content :: "pystr list \<Rightarrow> exn + pystr"
    \<comment> \<open>\<open>self.model.generate_content(parts).text\<close>\<close>
  path_exists :: "pystr \<Rightarrow> bool"
    \<comment> \<open>\<open>os.path.exists(path)\<close>\<close>
  pdf_page_texts :: "pystr \<Rightarrow> exn + pystr list"
    \<comment> \<open>\<open>page.extract_text()\<close> of every page of \<open>PdfReader(path)\<close>\<close>
  write_yaml_file :: "pystr \<Rightarrow> yaml \<Rightarrow> exn + unit"
    \<comment> \<open>\<open>open(filepath, 'w')\<close> and \<open>yaml.dump(data, f, ...)\<close>\<close>
  makedirs :: "pystr \<Rightarrow> exn + unit"
    \<comment> \<open>\<open>os.makedirs(output_dir, exist_ok=True)\<close>\<close>
  genai_setup :: "pystr \<Rightarrow> exn + unit"
    \<comment> \<open>\<open>genai.configure(api_key=...)\<close> and \<open>genai.GenerativeModel(...)\<close>\<close>
  now_str :: pystr
    \<comment> \<open>\<open>str(datetime.now())\<close>\<close>
  now_stamp :: pystr
    \<comment> \<open>\<open>datetime.now().strftime("%Y%m%d_%H%M%S")\<close>\<close>

subsection \<open>Programs: state passing with exceptions\<close>

text \<open>
  A method runs on a state (the object and what it has printed) and gives the new state
  with either the exception it raised or the value it returned. What was done before a
  \<open>raise\<close> stays done.
\<close>

type_synonym ('s, 'a) prog = "'s \<Rightarrow> 's \<times> (exn + 'a)"

definition ret :: "'a \<Rightarrow> ('s, 'a) prog" where
  "ret x = (\<lambda>s. (s, Inr x))"

definition raise :: "exn \<Rightarrow> ('s, 'a) prog" where
  "raise e = (\<lambda>s. (s, Inl e))"

definition call_ext :: "exn + 'a \<Rightarrow> ('s, 'a) prog" where
  "call_ext r = (\<lambda>s. (s, r))"

definition bind_prog :: "('s, 'a) prog \<Rightarrow> ('a \<Rightarrow> ('s, 'b) prog) \<Rightarrow> ('s, 'b) prog" where
  "bind_prog m f = (\<lambda>s. case m s of (s', Inl e) \<Rightarrow> (s', Inl e) | (s', Inr x) \<Rightarrow> f x s')"

text \<open>\<open>try: body except C as e: handler\<close>, where \<open>catches\<close> says which exceptions are of class \<open>C\<close>.\<close>

definition try_except ::
  "('s, 'a) prog \<Rightarrow> (exn \<Rightarrow> bool) \<Rightarrow> (exn \<Rightarrow> ('s, 'a) prog) \<Rightarrow> ('s, 'a) prog" where
  "try_except body catches handler =
     (\<lambda>s. case body s of
             (s', Inl e) \<Rightarrow> if catches e then handler e s' else (s', Inl e)
           | (s', Inr x) \<Rightarrow> (s', Inr x))"

section \<open>ICLAgent (icl_agent.py)\<close>

record icl_agent =
  doc_path :: pystr
  output_dir :: pystr
  knowledge :: yaml

record icl_world =
  self :: icl_agent
  stdout :: "pystr list"

definition get_self :: "(icl_world, icl_agent) prog" where
  "get_self = (\<lambda>s. (s, Inr (self s)))"

definition set_knowledge :: "yaml \<Rightarrow> (icl_world, unit) prog" where
  "set_knowledge k = (\<lambda>s. (s\<lparr>self := (self s)\<lparr>knowledge := k\<rparr>\<rparr>, Inr ()))"


text \<open>
  \<open>ICLAgent.log\<close>: the indicator of the message type (that of \<open>info\<close> for an unknown
  type), a space and the message, printed as one line. The indicators are the code
  points of the source file's literals.
\<close>

definition indicators :: "(pystr \<times> pystr) list" where
  "indicators =
     [(str ''info'', [8218, 209, 960, 212, 8719, 232]),
      (str ''think'', [63743, 252, 167, 238]),
      (str ''action'', [63743, 252, 233, 216]),
      (str ''error'', [8218, 249, 229]),
      (str ''success'', [8218, 250, 214])]"

definition indicator :: "pystr \<Rightarrow> pystr" where
  "indicator kind =
     (case map_of indicators kind of
        Some p \<Rightarrow> p
      | None \<Rightarrow> [8218, 209, 960, 212, 8719, 232])"

definition log :: "pystr \<Rightarrow> pystr \<Rightarrow> (icl_world, unit) prog" where
  "log message kind =
     (\<lambda>s. (s\<lparr>stdout := stdout s @ [indicator kind @ str '' '' @ message]\<rparr>, Inr ()))"

text \<open>\<open>ICLAgent._parse_yaml_safely\<close>.\<close>

definition error_document :: "env \<Rightarrow> yaml" where
  "error_document env =
     YMap [(YStr (str ''error''), YStr (str ''Failed to parse YAML'')),
           (YStr (str ''timestamp''), YStr (now_str env))]"

definition parse_yaml_safely :: "env \<Rightarrow> pystr \<Rightarrow> (icl_world, yaml) prog" where
  "parse_yaml_safely env content =
     try_except
       (bind_prog (call_ext (safe_load_all env content)) (\<lambda>docs.
          if docs = [] then raise (Exn ValueError (str ''Empty YAML content''))
          else ret (if length docs = 1 then hd docs
                    else YMap [(YStr (str ''documents''), YSeq docs)])))
       is_YAMLError
       (\<lambda>e. bind_prog (log (str ''YAML parsing failed: '' @ exn_str e) (str ''error'')) (\<lambda>_.
             ret (error_document env)))"

text \<open>
  \<open>os.path.join\<close> of two parts (POSIX): an absolute second part wins, and a separator
  is put in unless the first part is empty or ends with one.
\<close>

definition path_join :: "pystr \<Rightarrow> pystr \<Rightarrow> pystr" where
  "path_join a b =
     (if prefix (str ''/'') b then b
      else if a = [] \<or> suffix (str ''/'') a then a @ b
      else a @ str ''/'' @ b)"

text \<open>\<open>ICLAgent._save_yaml\<close>; \<open>name\<close> is \<open>None\<close> by default, and an empty name counts as none.\<close>

definition save_yaml :: "env \<Rightarrow> yaml \<Rightarrow> pystr option \<Rightarrow> (icl_world, pystr) prog" where
  "save_yaml env data name =
     try_except
       (bind_prog get_self (\<lambda>agent.
          let timestamp = now_stamp env;
              filename =
                (case name of
                   Some n \<Rightarrow>
                     if n \<noteq> [] then n @ str ''_'' @ timestamp @ str ''.yaml''
                     else str ''config_'' @ timestamp @ str ''.yaml''
                 | None \<Rightarrow> str ''config_'' @ timestamp @ str ''.yaml'');
              filepath = path_join (output_dir agent) filename
          in bind_prog (call_ext (write_yaml_file env filepath data)) (\<lambda>_.
             bind_prog (log (str ''Configuration saved to '' @ filepath) (str ''success'')) (\<lambda>_.
             ret filepath))))
       is_Exception
       (\<lambda>e. bind_prog (log (str ''Error saving YAML: '' @ exn_str e) (str ''error'')) (\<lambda>_.
             raise e))"

text \<open>\<open>ICLAgent._load_knowledge\<close>.\<close>

definition default_knowledge :: yaml where
  "default_knowledge =
     YMap [(YStr (str ''schema''),
              YMap [(YStr (str ''components''), YSeq []), (YStr (str ''parameters''), YSeq [])]),
           (YStr (str ''rules''),
              YMap [(YStr (str ''validation''), YSeq []), (YStr (str ''security''), YSeq [])]),
           (YStr (str ''practices''),
              YMap [(YStr (str ''deployment''), YSeq []), (YStr (str ''configuration''), YSeq [])]),
           (YStr (str ''patterns''),
              YMap [(YStr (str ''common''), YSeq []), (YStr (str ''recommended''), YSeq [])])]"

definition indent12 :: "string \<Rightarrow> pystr" where
  "indent12 s = str (''            '' @ s)"

definition knowledge_prompt :: pystr where
  "knowledge_prompt =
     py_join [10]
       [[],
        indent12 ''Extract key information from the documentation and format it as YAML with the following structure:'',
        indent12 ''schema:'',
        indent12 ''  components: []'',
        indent12 ''  parameters: []'',
        indent12 ''rules:'',
        indent12 ''  validation: []'',
        indent12 ''  security: []'',
        indent12 ''practices:'',
        indent12 ''  deployment: []'',
        indent12 ''  configuration: []'',
        indent12 ''patterns:'',
        indent12 ''  common: []'',
        indent12 ''  recommended: []'',
        [],
        indent12 ''Output **only valid YAML**, without markdown formatting or extra text.'',
        indent12 '''']"


definition is_dict :: "yaml \<Rightarrow> bool" where
  "is_dict d = (case d of YMap m \<Rightarrow> True | _ \<Rightarrow> False)"

text \<open>The truth value of a document that is a dict: an empty dict is false.\<close>

definition nonempty_dict :: "yaml \<Rightarrow> bool" where
  "nonempty_dict d = (case d of YMap m \<Rightarrow> m \<noteq> [] | _ \<Rightarrow> False)"

definition load_knowledge_body :: "env \<Rightarrow> (icl_world, unit) prog" where
  "load_knowledge_body env =
     bind_prog (log (str ''Reading documentation...'') (str ''think'')) (\<lambda>_.
     bind_prog get_self (\<lambda>agent.
     if \<not> path_exists env (doc_path agent) then
       raise (Exn FileNotFoundError (str ''Documentation file not found: '' @ doc_path agent))
     else
     bind_prog (call_ext (pdf_page_texts env (doc_path agent))) (\<lambda>pages.
     let content = py_join [10] (filter (\<lambda>t. t \<noteq> []) pages) in
     bind_prog (log (str ''Extracting key information...'') (str ''think'')) (\<lambda>_.
     bind_prog (call_ext (generate_content env [knowledge_prompt, content])) (\<lambda>response_text.
     bind_prog (parse_yaml_safely env (clean_response response_text)) (\<lambda>parsed.
     if \<not> is_dict parsed \<or> \<not> nonempty_dict parsed then
       raise (Exn ValueError (str ''Invalid knowledge structure''))
     else
     bind_prog (set_knowledge parsed) (\<lambda>_.
     log (str ''Documentation processed successfully'') (str ''success''))))))))"

definition load_knowledge :: "env \<Rightarrow> (icl_world, unit) prog" where
  "load_knowledge env =
     try_except (load_knowledge_body env) is_Exception
       (\<lambda>e. bind_prog (log (str ''Error loading documentation: '' @ exn_str e) (str ''error'')) (\<lambda>_.
             set_knowledge default_knowledge))"

text \<open>
  \<open>ICLAgent.__init__\<close>, run on a fresh object; \<open>printed\<close> is what the process has
  printed so far.
\<close>

definition ICLAgent_init ::
  "env \<Rightarrow> pystr \<Rightarrow> pystr \<Rightarrow> pystr \<Rightarrow> pystr list \<Rightarrow> icl_world \<times> (exn + unit)" where
  "ICLAgent_init env doc api_key out_dir printed =
     (bind_prog (call_ext (makedirs env out_dir)) (\<lambda>_.
      bind_prog (call_ext (genai_setup env api_key)) (\<lambda>_.
      bind_prog (log (str ''Initializing and loading documentation...'') (str ''info'')) (\<lambda>_.
      load_knowledge env))))
       \<lparr>self = \<lparr>doc_path = doc, output_dir = out_dir, knowledge = YMap []\<rparr>, stdout = printed\<rparr>"


text \<open>\<open>ICLAgent.process_request\<close>: the body of its \<open>try\<close>, then the method.\<close>

definition request_prompt :: "pystr \<Rightarrow> pystr \<Rightarrow> pystr" where
  "request_prompt user_input kb =
     py_join [10]
       [[],
        indent12 ''Generate a YAML configuration based on this request: '' @ user_input,
        [],
        indent12 ''Knowledge base:'',
        indent12 '''' @ kb,
        [],
        indent12 ''Requirements:'',
        indent12 ''- Output **only valid YAML**, without markdown or extra text.'',
        indent12 ''- Ensure all necessary components are included.'',
        indent12 ''- Follow security and best practices.'',
        indent12 ''- Use proper indentation.'',
        [],
        indent12 ''Response must be **pure YAML** with no extra formatting.'',
        indent12 '''']"

definition process_request_body :: "env \<Rightarrow> pystr \<Rightarrow> (icl_world, yaml \<times> pystr) prog" where
  "process_request_body env user_input =
     bind_prog (log (str ''Processing request: '' @ user_input) (str ''think'')) (\<lambda>_.
     bind_prog get_self (\<lambda>agent.
     bind_prog (call_ext (yaml_dump env (knowledge agent))) (\<lambda>kb.
     bind_prog (call_ext (generate_content env [request_prompt user_input kb])) (\<lambda>response_text.
     bind_prog (parse_yaml_safely env (clean_response response_text)) (\<lambda>config.
     bind_prog (save_yaml env config (Some (str ''icl_config''))) (\<lambda>filepath.
     ret (config, filepath)))))))"

definition process_request :: "env \<Rightarrow> pystr \<Rightarrow> (icl_world, yaml \<times> pystr) prog" where
  "process_request env user_input =
     try_except (process_request_body env user_input) is_Exception
       (\<lambda>e. bind_prog (log (str ''Error processing request: '' @ exn_str e) (str ''error'')) (\<lambda>_.
             raise e))"

text \<open>\<open>ICLAgent.update_configuration\<close>.\<close>

definition update_prompt :: "pystr \<Rightarrow> pystr \<Rightarrow> pystr \<Rightarrow> pystr" where
  "update_prompt current update_request kb =
     py_join [10]
       [[],
        indent12 ''Update this configuration:'',
        indent12 '''' @ current,
        [],
        indent12 ''With these changes: '' @ update_request,
        [],
        indent12 ''Knowledge base:'',
        indent12 '''' @ kb,
        [],
        indent12 ''Requirements:'',
        indent12 ''- Maintain existing valid settings.'',
        indent12 ''- Update only the necessary parts.'',
        indent12 ''- Ensure structure and format remain valid.'',
        indent12 ''- Ensure correct indentation.'',
        [],
        indent12 ''Response must be **pure YAML** with no extra text.'',
        indent12 '''']"

definition update_configuration_body ::
  "env \<Rightarrow> yaml \<Rightarrow> pystr \<Rightarrow> (icl_world, yaml \<times> pystr) prog" where
  "update_configuration_body env current_config update_request =
     bind_prog (log (str ''Processing update: '' @ update_request) (str ''think'')) (\<lambda>_.
     bind_prog (call_ext (yaml_dump env current_config)) (\<lambda>current.
     bind_prog get_self (\<lambda>agent.
     bind_prog (call_ext (yaml_dump env (knowledge agent))) (\<lambda>kb.
     bind_prog (call_ext (generate_content env [update_prompt current update_request kb]))
       (\<lambda>response_text.
     bind_prog (parse_yaml_safely env (clean_response response_text)) (\<lambda>updated_config.
     bind_prog (save_yaml env updated_config (Some (str ''icl_config_updated''))) (\<lambda>filepath.
     ret (updated_config, filepath))))))))"

definition update_configuration ::
  "env \<Rightarrow> yaml \<Rightarrow> pystr \<Rightarrow> (icl_world, yaml \<times> pystr) prog" where
  "update_configuration env current_config update_request =
     try_except (update_configuration_body env current_config update_request) is_Exception
       (\<lambda>e. bind_prog (log (str ''Error updating configuration: '' @ exn_str e) (str ''error''))
               (\<lambda>_. raise e))"

section \<open>StreamlitICLAgent (app.py)\<close>

text \<open>
  The interactive agent keeps its knowledge base and reports errors to the page with
  \<open>st.error\<close>; \<open>st_errors\<close> is what it has reported.
\<close>

record st_world =
  st_knowledge :: yaml
  st_errors :: "pystr list"

definition st_error :: "pystr \<Rightarrow> (st_world, unit) prog" where
  "st_error message = (\<lambda>s. (s\<lparr>st_errors := st_errors s @ [message]\<rparr>, Inr ()))"

text \<open>
  \<open>StreamlitICLAgent.__init__\<close>: the static knowledge base, then the model set up with
  the key the source holds (a parameter here).
\<close>

definition StreamlitICLAgent_init :: "env \<Rightarrow> pystr \<Rightarrow> pystr list \<Rightarrow> st_world \<times> (exn + unit)" where
  "StreamlitICLAgent_init env api_key reported =
     call_ext (genai_setup env api_key)
       \<lparr>st_knowledge = default_knowledge, st_errors = reported\<rparr>"

text \<open>\<open>StreamlitICLAgent._parse_yaml_safely\<close>.\<close>

definition st_parse_yaml_safely :: "env \<Rightarrow> pystr \<Rightarrow> (st_world, yaml) prog" where
  "st_parse_yaml_safely env content =
     try_except
       (bind_prog (call_ext (safe_load_all env content)) (\<lambda>docs.
          if docs = [] then raise (Exn ValueError (str ''Empty YAML content''))
          else ret (if length docs = 1 then hd docs
                    else YMap [(YStr (str ''documents''), YSeq docs)])))
       is_YAMLError
       (\<lambda>e. bind_prog (st_error (str ''YAML parsing failed: '' @ exn_str e)) (\<lambda>_.
             ret (YMap [(YStr (str ''error''), YStr (str ''Failed to parse YAML'')),
                        (YStr (str ''timestamp''), YStr (now_str env))])))"

text \<open>\<open>StreamlitICLAgent.process_request\<close>: the body of its \<open>try\<close>, then the method.\<close>

definition st_request_prompt :: "pystr \<Rightarrow> pystr \<Rightarrow> pystr" where
  "st_request_prompt user_input kb =
     py_join [10]
       [[],
        indent12 ''Generate a YAML configuration based on this request: '' @ user_input,
        [],
        indent12 ''Knowledge base:'',
        indent12 '''' @ kb,
        [],
        indent12 ''Requirements:'',
        indent12 ''- Output **only valid YAML**, without markdown or extra text'',
        indent12 ''- Ensure all necessary components are included'',
        indent12 ''- Follow security and best practices'',
        indent12 ''- Use proper indentation'',
        [],
        indent12 ''Response must be **pure YAML** with no extra formatting.'',
        indent12 '''']"

definition st_process_request_body :: "env \<Rightarrow> pystr \<Rightarrow> (st_world, yaml) prog" where
  "st_process_request_body env user_input =
     (\<lambda>s. bind_prog (call_ext (yaml_dump env (st_knowledge s))) (\<lambda>kb.
           bind_prog (call_ext (generate_content env [st_request_prompt user_input kb]))
             (\<lambda>response_text.
           st_parse_yaml_safely env (st_clean_response response_text))) s)"

definition st_process_request :: "env \<Rightarrow> pystr \<Rightarrow> (st_world, yaml) prog" where
  "st_process_request env user_input =
     try_except (st_process_request_body env user_input) is_Exception
       (\<lambda>e. bind_prog (st_error (str ''Error processing request: '' @ exn_str e)) (\<lambda>_.
             ret (YMap [(YStr (str ''error''), YStr (exn_str e))])))"

section \<open>Recorded behaviour of the collaborators, for concrete runs\<close>

text \<open>
  The concrete runs below need concrete collaborators. \<open>recorded_safe_load_all\<close> and
  \<open>recorded_yaml_dump\<close> hold what PyYAML gives on the handful of texts and documents
  those runs use (the message of a parse error is shortened); anything else raises
  \<open>NotRecorded\<close>, so that a run leaving the table shows. \<open>stub_env\<close> is an environment
  in the manner of the specification's scenarios: the reference document exists or not,
  the remote model answers \<open>response\<close> to every prompt, and writing a file ends as
  \<open>written\<close>.
\<close>

definition not_recorded :: exn where
  "not_recorded = Exn (OtherException (str ''NotRecorded'')) (str ''outside the recorded table'')"

definition scenario_response :: pystr where
  "scenario_response =
     py_join [10] [str ''component: webapp'', str ''replicas: auto'', str ''memory: 2GB'', []]"

definition scenario_document :: yaml where
  "scenario_document =
     YMap [(YStr (str ''component''), YStr (str ''webapp'')),
           (YStr (str ''replicas''), YStr (str ''auto'')),
           (YStr (str ''memory''), YStr (str ''2GB''))]"

definition unparsable_response :: pystr where
  "unparsable_response = str '': : :''"

definition empty_fenced_block :: pystr where
  "empty_fenced_block = fence @ str ''yaml'' @ [10] @ fence"

definition two_documents_text :: pystr where
  "two_documents_text = py_join [10] [str ''a: 1'', str ''---'', str ''b: 2'']"

definition multiline_document :: yaml where
  "multiline_document = YMap [(YStr (str ''a''), YStr (str ''x'' @ [10] @ str ''y''))]"

definition multiline_dump :: pystr where
  "multiline_dump = py_join [10] [str ''a: '' @ [39] @ str ''x'', [], str ''  y'' @ [39], []]"

definition recorded_safe_load_all :: "pystr \<Rightarrow> exn + yaml list" where
  "recorded_safe_load_all content =
     (if content = [] then Inr []
      else if content = str '': : :'' then
        Inl (Exn YAMLError (str ''while parsing a block mapping''))
      else if content = str ''a: 1'' then Inr [YMap [(YStr (str ''a''), YInt 1)]]
      else if content = py_join [10] [str ''component: webapp'', str ''replicas: auto'', str ''memory: 2GB'']
        then Inr [scenario_document]
      else if content = two_documents_text then
        Inr [YMap [(YStr (str ''a''), YInt 1)], YMap [(YStr (str ''b''), YInt 2)]]
      else if content = multiline_dump then Inr [multiline_document]
      else if content = py_join [10] [str ''a: '' @ [39] @ str ''x'', str ''  y'' @ [39]] then
        Inr [YMap [(YStr (str ''a''), YStr (str ''x y''))]]
      else Inl not_recorded)"

definition default_knowledge_dump :: pystr where
  "default_knowledge_dump =
     py_join [10]
       [str ''patterns:'', str ''  common: []'', str ''  recommended: []'',
        str ''practices:'', str ''  configuration: []'', str ''  deployment: []'',
        str ''rules:'', str ''  security: []'', str ''  validation: []'',
        str ''schema:'', str ''  components: []'', str ''  parameters: []'', []]"

definition recorded_yaml_dump :: "yaml \<Rightarrow> exn + pystr" where
  "recorded_yaml_dump d =
     (if d = default_knowledge then Inr default_knowledge_dump
      else if d = YMap [(YStr (str ''a''), YInt 1)] then Inr (str ''a: 1'' @ [10])
      else if d = multiline_document then Inr multiline_dump
      else if d = scenario_document then
        Inr (py_join [10] [str ''component: webapp'', str ''memory: 2GB'', str ''replicas: auto'', []])
      else Inl not_recorded)"

definition stub_env :: "bool \<Rightarrow> exn + pystr \<Rightarrow> exn + unit \<Rightarrow> env" where
  "stub_env doc_exists response written =
     \<lparr>safe_load_all = recorded_safe_load_all,
      yaml_dump = recorded_yaml_dump,
      generate_content = (\<lambda>parts. response),
      path_exists = (\<lambda>path. doc_exists),
      pdf_page_texts = (\<lambda>path. Inr [str ''ICL reference'', []]),
      write_yaml_file = (\<lambda>path data. written),
      makedirs = (\<lambda>path. Inr ()),
      genai_setup = (\<lambda>key. Inr ()),
      now_str = str ''2025-01-01 12:00:00.000000'',
      now_stamp = str ''20250101_120000''\<rparr>"

definition transport_error :: exn where
  "transport_error = Exn (OtherException (str ''TransportError'')) (str ''quota exceeded'')"

definition disk_full :: exn where
  "disk_full = Exn (OtherException (str ''OSError'')) (str ''No space left on device'')"

definition fresh_world :: icl_world where
  "fresh_world =
     \<lparr>self = \<lparr>doc_path = str ''icl.pdf'', output_dir = str ''configs'', knowledge = default_knowledge\<rparr>,
      stdout = []\<rparr>"

definition fresh_st_world :: st_world where
  "fresh_st_world = \<lparr>st_knowledge = default_knowledge, st_errors = []\<rparr>"

section \<open>The sanitizer leaves no fence\<close>

lemma sublist_fence_Cons:
  "sublist fence (c # ys) \<longleftrightarrow> (c = 96 \<and> prefix [96, 96] ys) \<or> sublist fence ys"
  by (auto simp: sublist_Cons_right fence_def)

lemma no_fence_sublist: "sublist ys zs \<Longrightarrow> \<not> sublist fence zs \<Longrightarrow> \<not> sublist fence ys"
  using sublist_order.order_trans by blast

lemma prefix_fence_Cons: "prefix fence (c # cs) \<longleftrightarrow> c = 96 \<and> prefix [96, 96] cs"
  by (simp add: fence_def)

lemma prefix2_1: "prefix [a, b] l \<Longrightarrow> prefix [a] l"
  by (auto simp: prefix_def)

text \<open>Replacing the fence by nothing leaves no fence.\<close>

lemma replace_fence_Nil: "py_replace fence [] [] = []"
  by (simp add: fence_def)

lemma replace_fence_Cons:
  "py_replace fence [] (c # cs) =
     (if prefix fence (c # cs) then py_replace fence [] (drop 2 cs) else c # py_replace fence [] cs)"
  by (simp add: fence_def numeral_2_eq_2)

lemma replace_fence_head1: "prefix [96] (py_replace fence [] s) \<Longrightarrow> prefix [96] s"
  by (cases s) (auto simp: replace_fence_Cons replace_fence_Nil prefix_fence_Cons split: if_splits)

lemma replace_fence_head2: "prefix [96, 96] (py_replace fence [] s) \<Longrightarrow> prefix [96, 96] s"
  by (cases s)
     (auto simp: replace_fence_Cons replace_fence_Nil prefix_fence_Cons
           dest: replace_fence_head1 prefix2_1 split: if_splits)

lemma replace_fence_no_fence: "\<not> sublist fence (py_replace fence [] s)"
proof (induction s rule: length_induct)
  case (1 s)
  show ?case
  proof (cases s)
    case Nil
    then show ?thesis by (simp add: replace_fence_Nil fence_def)
  next
    case (Cons c cs)
    show ?thesis
    proof (cases "prefix fence s")
      case True
      have "length (drop 2 cs) < length s" using Cons by simp
      with 1 have "\<not> sublist fence (py_replace fence [] (drop 2 cs))" by blast
      then show ?thesis using True Cons by (simp add: replace_fence_Cons)
    next
      case False
      have ih: "\<not> sublist fence (py_replace fence [] cs)" using 1 Cons by simp
      have "\<not> (c = 96 \<and> prefix [96, 96] (py_replace fence [] cs))"
        using False Cons replace_fence_head2 [of cs] by (auto simp: prefix_fence_Cons)
      then show ?thesis using False Cons ih
        by (simp add: replace_fence_Cons sublist_fence_Cons)
    qed
  qed
qed

text \<open>Deleting a comment joins what stands before it to a line feed or to the end.\<close>

lemma sub_comment_head_lf: "sub_comment (10 # cs) = 10 # sub_comment cs"
  by simp

lemma sub_comment_hash:
  "sub_comment (35 # cs) = [] \<or> (\<exists>r. sub_comment (35 # cs) = 10 # r)"
proof -
  define d where "d = dropWhile (\<lambda>d. d \<noteq> (10::nat)) cs"
  have eq: "sub_comment (35 # cs) = sub_comment d" by (simp add: d_def)
  show ?thesis
  proof (cases d)
    case Nil
    with eq show ?thesis by simp
  next
    case (Cons x r)
    have "x = 10" using hd_dropWhile [of "\<lambda>d. d \<noteq> (10::nat)" cs] Cons
      unfolding d_def by fastforce
    with eq Cons show ?thesis by simp
  qed
qed

lemma sub_comment_head1: "prefix [96] (sub_comment s) \<Longrightarrow> prefix [96] s"
proof (cases s)
  case Nil
  then show "prefix [96] (sub_comment s) \<Longrightarrow> ?thesis" by simp
next
  case (Cons c cs)
  assume a: "prefix [96] (sub_comment s)"
  show ?thesis
  proof (cases "c = 35")
    case True
    from sub_comment_hash [of cs] a Cons True show ?thesis by auto
  next
    case False
    with a Cons show ?thesis by auto
  qed
qed

lemma sub_comment_head2: "prefix [96, 96] (sub_comment s) \<Longrightarrow> prefix [96, 96] s"
proof (cases s)
  case Nil
  then show "prefix [96, 96] (sub_comment s) \<Longrightarrow> ?thesis" by simp
next
  case (Cons c cs)
  assume a: "prefix [96, 96] (sub_comment s)"
  show ?thesis
  proof (cases "c = 35")
    case True
    from sub_comment_hash [of cs] a Cons True show ?thesis by auto
  next
    case False
    with a Cons show ?thesis by (auto dest: sub_comment_head1)
  qed
qed

lemma sub_comment_no_fence: "\<not> sublist fence s \<Longrightarrow> \<not> sublist fence (sub_comment s)"
proof (induction s rule: sub_comment.induct)
  case 1
  then show ?case by simp
next
  case (2 c cs)
  show ?case
  proof (cases "c = 35")
    case True
    have "sublist (dropWhile (\<lambda>d. d \<noteq> 10) cs) (c # cs)"
      by (metis sublist_Cons_right suffix_dropWhile suffix_imp_sublist)
    with "2.prems" have "\<not> sublist fence (dropWhile (\<lambda>d. d \<noteq> 10) cs)"
      using no_fence_sublist by blast
    with 2 True show ?thesis by simp
  next
    case False
    from "2.prems" have nf: "\<not> sublist fence cs" and np: "\<not> (c = 96 \<and> prefix [96, 96] cs)"
      by (auto simp: sublist_fence_Cons)
    from 2 False nf have "\<not> sublist fence (sub_comment cs)" by simp
    moreover from np have "\<not> (c = 96 \<and> prefix [96, 96] (sub_comment cs))"
      using sub_comment_head2 by blast
    ultimately show ?thesis using False by (simp add: sublist_fence_Cons)
  qed
qed

text \<open>Stripping and splitting give pieces of the text.\<close>

lemma py_strip_sublist: "sublist (py_strip s) s"
proof -
  have "prefix (rev (dropWhile isspace (rev (dropWhile isspace s)))) (dropWhile isspace s)"
    by (metis rev_rev_ident suffix_dropWhile suffix_to_prefix)
  moreover have "suffix (dropWhile isspace s) s" by (rule suffix_dropWhile)
  ultimately show ?thesis
    unfolding py_strip_def
    by (meson prefix_imp_sublist suffix_imp_sublist sublist_order.order_trans)
qed

lemma splitlines_first_prefix: "splitlines s = l # ls \<Longrightarrow> prefix l s"
  by (induction s arbitrary: l ls rule: splitlines.induct)
     (auto split: if_splits list.splits)

lemma splitlines_sublist: "l \<in> set (splitlines s) \<Longrightarrow> sublist l s"
proof (induction s arbitrary: l rule: splitlines.induct)
  case 1
  then show ?case by simp
next
  case (2 c cs)
  show ?case
  proof (cases "islinebreak c")
    case True
    show ?thesis
    proof (cases cs)
      case Nil
      with 2 True show ?thesis by auto
    next
      case (Cons d ds)
      show ?thesis
      proof (cases "c = 13 \<and> d = 10")
        case t: True
        with "2.prems" True Cons have "l = [] \<or> l \<in> set (splitlines ds)" by auto
        then show ?thesis
        proof
          assume "l = []" then show ?thesis by simp
        next
          assume "l \<in> set (splitlines ds)"
          with "2.IH"(1) True Cons t have "sublist l ds" by blast
          then show ?thesis using Cons by (simp add: sublist_Cons_right)
        qed
      next
        case f: False
        with "2.prems" True Cons have "l = [] \<or> l \<in> set (splitlines cs)" by auto
        then show ?thesis
        proof
          assume "l = []" then show ?thesis by simp
        next
          assume "l \<in> set (splitlines cs)"
          with "2.IH"(2) True Cons f have "sublist l cs" by blast
          then show ?thesis by (simp add: sublist_Cons_right)
        qed
      qed
    qed
  next
    case False
    show ?thesis
    proof (cases "splitlines cs")
      case Nil
      with "2.prems" False have "l = [c]" by simp
      then show ?thesis by (simp add: sublist_Cons_right)
    next
      case (Cons l0 ls)
      with "2.prems" False have "l = c # l0 \<or> l \<in> set ls" by auto
      then show ?thesis
      proof
        assume "l = c # l0"
        moreover have "prefix l0 cs" using Cons by (rule splitlines_first_prefix)
        ultimately show ?thesis by (simp add: sublist_Cons_right)
      next
        assume "l \<in> set ls"
        then have "l \<in> set (splitlines cs)" using Cons by simp
        with "2.IH"(3) False have "sublist l cs" by blast
        then show ?thesis by (simp add: sublist_Cons_right)
      qed
    qed
  qed
qed

text \<open>Tabs become spaces, and joining puts a line feed between the lines.\<close>

lemma replace_tab_Cons:
  "py_replace [9] (str ''  '') (c # cs) =
     (if c = 9 then 32 # 32 # py_replace [9] (str ''  '') cs else c # py_replace [9] (str ''  '') cs)"
  by (simp add: str_def)

lemma replace_tab_Nil: "py_replace [9] (str ''  '') [] = []"
  by simp

lemma replace_tab_head1: "prefix [96] (py_replace [9] (str ''  '') s) \<Longrightarrow> prefix [96] s"
  by (cases s) (auto simp: replace_tab_Cons replace_tab_Nil simp del: py_replace.simps split: if_splits)

lemma replace_tab_head2: "prefix [96, 96] (py_replace [9] (str ''  '') s) \<Longrightarrow> prefix [96, 96] s"
  by (cases s)
     (auto simp: replace_tab_Cons replace_tab_Nil simp del: py_replace.simps
           dest: replace_tab_head1 split: if_splits)

lemma replace_tab_no_fence:
  "\<not> sublist fence s \<Longrightarrow> \<not> sublist fence (py_replace [9] (str ''  '') s)"
proof (induction s)
  case Nil
  then show ?case by simp
next
  case (Cons c cs)
  from Cons.prems have nf: "\<not> sublist fence cs" and np: "\<not> (c = 96 \<and> prefix [96, 96] cs)"
    by (auto simp: sublist_fence_Cons)
  have ih: "\<not> sublist fence (py_replace [9] (str ''  '') cs)" using Cons.IH nf by simp
  show ?case
  proof (cases "c = 9")
    case True
    then show ?thesis using ih
      by (simp add: replace_tab_Cons sublist_fence_Cons del: py_replace.simps)
  next
    case False
    from np have "\<not> (c = 96 \<and> prefix [96, 96] (py_replace [9] (str ''  '') cs))"
      using replace_tab_head2 by blast
    then show ?thesis using False ih
      by (simp add: replace_tab_Cons sublist_fence_Cons del: py_replace.simps)
  qed
qed

lemma sublist_fence_append_lf:
  "sublist fence (a @ 10 # b) \<Longrightarrow> sublist fence a \<or> sublist fence b"
proof (induction a)
  case Nil
  then show ?case by (simp add: sublist_fence_Cons)
next
  case (Cons x a)
  show ?case
  proof (cases "x = 96 \<and> prefix [96, 96] (a @ 10 # b)")
    case True
    then have "prefix [96, 96] a"
      by (cases a; cases "tl a") auto
    with True show ?thesis by (simp add: sublist_fence_Cons)
  next
    case False
    with Cons show ?thesis by (auto simp: sublist_fence_Cons)
  qed
qed

lemma join_no_fence:
  "(\<And>l. l \<in> set ls \<Longrightarrow> \<not> sublist fence l) \<Longrightarrow> \<not> sublist fence (py_join [10] ls)"
proof (induction "[10::nat]" ls rule: py_join.induct)
  case 1
  then show ?case by (simp add: fence_def)
next
  case (2 l)
  then show ?case by simp
next
  case (3 l v va)
  have "\<not> sublist fence l" using 3 by simp
  moreover have "\<not> sublist fence (py_join [10] (v # va))" using 3 by simp
  ultimately show ?case using sublist_fence_append_lf [of l "py_join [10] (v # va)"] by auto
qed

text \<open>
  C6: whatever the raw model output, with fenced-code wrappers or without, the result of
  \<open>_clean_response\<close> contains no occurrence of the fence (three grave accents in a row).
\<close>

theorem clean_response_no_fence: "\<not> sublist fence (clean_response raw)"
proof (cases "raw = []")
  case True
  then show ?thesis by (simp add: clean_response_def fence_def)
next
  case False
  define text3 where "text3 = sub_comment (py_replace fence [] (sub_open_fence raw))"
  have t3: "\<not> sublist fence text3"
    unfolding text3_def by (rule sub_comment_no_fence) (rule replace_fence_no_fence)
  have st: "\<not> sublist fence (py_strip text3)"
    using py_strip_sublist t3 no_fence_sublist by blast
  have "\<not> sublist fence
          (py_join [10] (map (py_replace [9] (str ''  ''))
             (filter (\<lambda>line. py_strip line \<noteq> []) (splitlines (py_strip text3)))))"
  proof (rule join_no_fence)
    fix l
    assume "l \<in> set (map (py_replace [9] (str ''  ''))
             (filter (\<lambda>line. py_strip line \<noteq> []) (splitlines (py_strip text3))))"
    then obtain l0 where l0: "l0 \<in> set (splitlines (py_strip text3))"
      and l: "l = py_replace [9] (str ''  '') l0" by auto
    from l0 have "sublist l0 (py_strip text3)" by (rule splitlines_sublist)
    with st have "\<not> sublist fence l0" using no_fence_sublist by blast
    then show "\<not> sublist fence l" unfolding l by (rule replace_tab_no_fence)
  qed
  then show ?thesis using False by (simp add: clean_response_def text3_def Let_def)
qed

section \<open>Running programs\<close>

lemma bind_ret: "bind_prog (ret x) f = f x"
  by (simp add: bind_prog_def ret_def)
lemma bind_raise: "bind_prog (raise e) f = raise e"
  by (simp add: bind_prog_def raise_def)
lemma bind_call_Inr: "bind_prog (call_ext (Inr x)) f = f x"
  by (simp add: bind_prog_def call_ext_def)
lemma bind_call_Inl: "bind_prog (call_ext (Inl e)) f = raise e"
  by (simp add: bind_prog_def call_ext_def raise_def)
lemma bind_log:
  "bind_prog (log message kind) f s =
     f () (s\<lparr>stdout := stdout s @ [indicator kind @ str '' '' @ message]\<rparr>)"
  by (simp add: bind_prog_def log_def)
lemma bind_get_self: "bind_prog get_self f s = f (self s) s"
  by (simp add: bind_prog_def get_self_def)
lemma try_except_apply:
  "try_except body catches handler s =
     (case body s of
        (s', Inl e) \<Rightarrow> if catches e then handler e s' else (s', Inl e)
      | (s', Inr x) \<Rightarrow> (s', Inr x))"
  by (simp add: try_except_def)

lemmas prog_simps = bind_ret bind_raise bind_call_Inr bind_call_Inl bind_log bind_get_self
  try_except_apply raise_def ret_def

section \<open>Parsing\<close>

text \<open>
  C1 (as amended): when the sanitized text parses to zero documents,
  \<open>_parse_yaml_safely\<close> raises \<open>ValueError("Empty YAML content")\<close>; its handler takes
  \<open>yaml.YAMLError\<close> only, so the exception reaches the caller, nothing is printed and no
  error document is made.
\<close>

theorem parse_empty_raises:
  "safe_load_all env content = Inr [] \<Longrightarrow>
   parse_yaml_safely env content s = (s, Inl (Exn ValueError (str ''Empty YAML content'')))"
  by (simp add: parse_yaml_safely_def prog_simps)

text \<open>The theorem at the empty response, which has no document.\<close>

theorem parse_empty_raises_witness:
  "safe_load_all (stub_env True (Inr []) (Inr ())) (clean_response []) = Inr [] \<and>
   parse_yaml_safely (stub_env True (Inr []) (Inr ())) (clean_response []) fresh_world =
     (fresh_world, Inl (Exn ValueError (str ''Empty YAML content'')))"
proof -
  have h: "safe_load_all (stub_env True (Inr []) (Inr ())) (clean_response []) = Inr []"
    by (simp add: stub_env_def recorded_safe_load_all_def clean_response_def)
  show ?thesis using h parse_empty_raises [OF h, of fresh_world] by simp
qed

text \<open>
  C1 as stated fails: a response that is an empty fenced block is sanitized to the empty
  text, which has no document, and the parser raises instead of returning a document.
\<close>

lemma clean_empty_fenced_block: "clean_response empty_fenced_block = []"
  by (simp add: empty_fenced_block_def clean_response_def fence_def str_def match_open_fence_def
        fence_tag_char_def py_strip_def)

theorem parse_empty_counterexample:
  "snd (parse_yaml_safely (stub_env True (Inr empty_fenced_block) (Inr ()))
          (clean_response empty_fenced_block) fresh_world) =
     Inl (Exn ValueError (str ''Empty YAML content''))"
  by (simp add: clean_empty_fenced_block parse_yaml_safely_def prog_simps
        stub_env_def recorded_safe_load_all_def)

text \<open>
  C4: a text that parses to exactly one document gives that document; a text that parses
  to two or more gives the mapping from \<open>documents\<close> to the list of them, in their order.
\<close>

theorem parse_documents:
  "(safe_load_all env content = Inr [d] \<longrightarrow> parse_yaml_safely env content s = (s, Inr d)) \<and>
   (safe_load_all env content = Inr docs \<and> 2 \<le> length docs \<longrightarrow>
      parse_yaml_safely env content s = (s, Inr (YMap [(YStr (str ''documents''), YSeq docs)])))"
  by (auto simp: parse_yaml_safely_def prog_simps)

text \<open>
  C5: a text on which the loader raises a \<open>yaml.YAMLError\<close> gives exactly the mapping of
  \<open>error\<close> to \<open>Failed to parse YAML\<close> and of \<open>timestamp\<close> to the current time as a string;
  the failure is printed, and nothing is raised.
\<close>

theorem parse_structural_error:
  "safe_load_all env content = Inl (Exn YAMLError m) \<Longrightarrow>
   parse_yaml_safely env content s =
     (s\<lparr>stdout := stdout s @ [indicator (str ''error'') @ str '' YAML parsing failed: '' @ m]\<rparr>,
      Inr (YMap [(YStr (str ''error''), YStr (str ''Failed to parse YAML'')),
                 (YStr (str ''timestamp''), YStr (now_str env))]))"
  by (simp add: parse_yaml_safely_def prog_simps error_document_def str_def)

text \<open>Both parsers, case by case on what the loader does.\<close>

lemma bind_st_error:
  "bind_prog (st_error message) f s = f () (s\<lparr>st_errors := st_errors s @ [message]\<rparr>)"
  by (simp add: bind_prog_def st_error_def)

lemma parse_yaml_safely_cases:
  "parse_yaml_safely env content s =
     (case safe_load_all env content of
        Inl e \<Rightarrow>
          if is_YAMLError e then
            (s\<lparr>stdout := stdout s @
                 [indicator (str ''error'') @ str '' '' @ str ''YAML parsing failed: '' @ exn_str e]\<rparr>,
             Inr (error_document env))
          else (s, Inl e)
      | Inr docs \<Rightarrow>
          if docs = [] then (s, Inl (Exn ValueError (str ''Empty YAML content'')))
          else (s, Inr (if length docs = 1 then hd docs
                        else YMap [(YStr (str ''documents''), YSeq docs)])))"
  by (cases "safe_load_all env content") (simp_all add: parse_yaml_safely_def prog_simps)

lemma st_parse_yaml_safely_cases:
  "st_parse_yaml_safely env content s =
     (case safe_load_all env content of
        Inl e \<Rightarrow>
          if is_YAMLError e then
            (s\<lparr>st_errors := st_errors s @ [str ''YAML parsing failed: '' @ exn_str e]\<rparr>,
             Inr (error_document env))
          else (s, Inl e)
      | Inr docs \<Rightarrow>
          if docs = [] then (s, Inl (Exn ValueError (str ''Empty YAML content'')))
          else (s, Inr (if length docs = 1 then hd docs
                        else YMap [(YStr (str ''documents''), YSeq docs)])))"
  by (cases "safe_load_all env content")
     (simp_all add: st_parse_yaml_safely_def prog_simps bind_st_error error_document_def)

text \<open>
  C10: the sanitizer of the interactive agent computes the same text as that of the
  scripted agent, and the two parsers return the same value or raise the same exception,
  whatever has been printed or reported before.
\<close>

theorem streamlit_copies_agree:
  "st_clean_response raw = clean_response raw \<and>
   snd (st_parse_yaml_safely env content st) = snd (parse_yaml_safely env content s)"
proof
  show "st_clean_response raw = clean_response raw"
    by (simp add: st_clean_response_def clean_response_def)
  show "snd (st_parse_yaml_safely env content st) = snd (parse_yaml_safely env content s)"
    by (simp add: st_parse_yaml_safely_cases parse_yaml_safely_cases split: sum.splits)
qed

text \<open>C4 at the scenario's response (one document) and at a text of two documents.\<close>

theorem parse_documents_witness:
  "(safe_load_all (stub_env True (Inr scenario_response) (Inr ())) (clean_response scenario_response)
      = Inr [scenario_document] \<and>
    parse_yaml_safely (stub_env True (Inr scenario_response) (Inr ()))
      (clean_response scenario_response) fresh_world = (fresh_world, Inr scenario_document)) \<and>
   (safe_load_all (stub_env True (Inr two_documents_text) (Inr ())) (clean_response two_documents_text)
      = Inr [YMap [(YStr (str ''a''), YInt 1)], YMap [(YStr (str ''b''), YInt 2)]] \<and>
    parse_yaml_safely (stub_env True (Inr two_documents_text) (Inr ()))
      (clean_response two_documents_text) fresh_world =
      (fresh_world,
       Inr (YMap [(YStr (str ''documents''),
                   YSeq [YMap [(YStr (str ''a''), YInt 1)], YMap [(YStr (str ''b''), YInt 2)]])])))"
proof -
  have c1: "clean_response scenario_response =
      py_join [10] [str ''component: webapp'', str ''replicas: auto'', str ''memory: 2GB'']"
    by (simp add: scenario_response_def clean_response_def fence_def str_def match_open_fence_def
          fence_tag_char_def py_strip_def isspace_def islinebreak_def)
  have c2: "clean_response two_documents_text = two_documents_text"
    by (simp add: two_documents_text_def clean_response_def fence_def str_def match_open_fence_def
          fence_tag_char_def py_strip_def isspace_def islinebreak_def)
  have h1: "safe_load_all (stub_env True (Inr scenario_response) (Inr ()))
      (clean_response scenario_response) = Inr [scenario_document]"
    unfolding c1 by (simp add: stub_env_def recorded_safe_load_all_def str_def)
  have h2: "safe_load_all (stub_env True (Inr two_documents_text) (Inr ()))
      (clean_response two_documents_text) =
      Inr [YMap [(YStr (str ''a''), YInt 1)], YMap [(YStr (str ''b''), YInt 2)]]"
    unfolding c2
    by (simp add: stub_env_def recorded_safe_load_all_def two_documents_text_def str_def)
  from parse_documents [of "stub_env True (Inr scenario_response) (Inr ())"
      "clean_response scenario_response" scenario_document fresh_world] h1
  have r1: "parse_yaml_safely (stub_env True (Inr scenario_response) (Inr ()))
      (clean_response scenario_response) fresh_world = (fresh_world, Inr scenario_document)"
    by blast
  from parse_documents [of "stub_env True (Inr two_documents_text) (Inr ())"
      "clean_response two_documents_text" _ fresh_world
      "[YMap [(YStr (str ''a''), YInt 1)], YMap [(YStr (str ''b''), YInt 2)]]"] h2
  have r2: "parse_yaml_safely (stub_env True (Inr two_documents_text) (Inr ()))
      (clean_response two_documents_text) fresh_world =
      (fresh_world,
       Inr (YMap [(YStr (str ''documents''),
                   YSeq [YMap [(YStr (str ''a''), YInt 1)], YMap [(YStr (str ''b''), YInt 2)]])]))"
    by simp
  from h1 r1 h2 r2 show ?thesis by blast
qed

text \<open>C5 at the unparsable text of the specification.\<close>

theorem parse_structural_error_witness:
  "safe_load_all (stub_env True (Inr (str '': : :'')) (Inr ())) (clean_response (str '': : :'')) =
     Inl (Exn YAMLError (str ''while parsing a block mapping'')) \<and>
   parse_yaml_safely (stub_env True (Inr (str '': : :'')) (Inr ())) (clean_response (str '': : :''))
       fresh_world =
     (fresh_world\<lparr>stdout := stdout fresh_world @
         [indicator (str ''error'') @ str '' YAML parsing failed: '' @
          str ''while parsing a block mapping'']\<rparr>,
      Inr (YMap [(YStr (str ''error''), YStr (str ''Failed to parse YAML'')),
                 (YStr (str ''timestamp''),
                  YStr (now_str (stub_env True (Inr (str '': : :'')) (Inr ()))))]))"
proof -
  have c: "clean_response (str '': : :'') = str '': : :''"
    by (simp add: clean_response_def fence_def str_def match_open_fence_def
          fence_tag_char_def py_strip_def isspace_def islinebreak_def)
  have h: "safe_load_all (stub_env True (Inr (str '': : :'')) (Inr ()))
      (clean_response (str '': : :'')) = Inl (Exn YAMLError (str ''while parsing a block mapping''))"
    unfolding c by (simp add: stub_env_def recorded_safe_load_all_def str_def)
  from h parse_structural_error [OF h, of fresh_world] show ?thesis by blast
qed

section \<open>Requests\<close>

lemma is_Exception_all: "is_Exception e"
  by (cases e) simp

text \<open>
  C8: whatever exception the body of \<open>process_request\<close> or of \<open>update_configuration\<close>
  raises (a failure of the remote call, of saving, an empty response), the method prints
  its error line and raises that same exception; it does not return. A structural parse
  error never gets this far: the parser has turned it into a document already.
\<close>

theorem request_exceptions_reraised:
  "(snd (process_request_body env user_input s) = Inl e \<longrightarrow>
      process_request env user_input s =
        ((fst (process_request_body env user_input s))
           \<lparr>stdout := stdout (fst (process_request_body env user_input s)) @
              [indicator (str ''error'') @ str '' Error processing request: '' @ exn_str e]\<rparr>,
         Inl e)) \<and>
   (snd (update_configuration_body env current_config update_request s) = Inl e \<longrightarrow>
      update_configuration env current_config update_request s =
        ((fst (update_configuration_body env current_config update_request s))
           \<lparr>stdout := stdout (fst (update_configuration_body env current_config update_request s)) @
              [indicator (str ''error'') @ str '' Error updating configuration: '' @ exn_str e]\<rparr>,
         Inl e))"
  by (cases "process_request_body env user_input s";
      cases "update_configuration_body env current_config update_request s")
     (simp add: process_request_def update_configuration_def prog_simps is_Exception_all str_def)

text \<open>
  C8 at a remote call that fails in \<open>process_request\<close> and at a file that cannot be
  written in \<open>update_configuration\<close>.
\<close>

lemma clean_scenario_response:
  "clean_response scenario_response =
     py_join [10] [str ''component: webapp'', str ''replicas: auto'', str ''memory: 2GB'']"
  by (simp add: scenario_response_def clean_response_def fence_def str_def match_open_fence_def
        fence_tag_char_def py_strip_def isspace_def islinebreak_def)

lemma request_body_transport_failure:
  "process_request_body (stub_env True (Inl transport_error) (Inr ())) user_input fresh_world =
     (fresh_world\<lparr>stdout := [indicator (str ''think'') @ str '' Processing request: '' @ user_input]\<rparr>,
      Inl transport_error)"
  by (simp add: process_request_body_def prog_simps stub_env_def fresh_world_def
        recorded_yaml_dump_def str_def)

lemma update_body_disk_full:
  "snd (update_configuration_body (stub_env True (Inr scenario_response) (Inl disk_full))
          scenario_document update_request fresh_world) = Inl disk_full"
proof -
  have l: "safe_load_all (stub_env True (Inr scenario_response) (Inl disk_full))
      (clean_response scenario_response) = Inr [scenario_document]"
    unfolding clean_scenario_response by (simp add: stub_env_def recorded_safe_load_all_def str_def)
  have d1: "yaml_dump (stub_env True (Inr scenario_response) (Inl disk_full)) scenario_document =
      Inr (py_join [10] [str ''component: webapp'', str ''memory: 2GB'', str ''replicas: auto'', []])"
    by (simp add: stub_env_def recorded_yaml_dump_def scenario_document_def default_knowledge_def
          multiline_document_def str_def)
  have d2: "yaml_dump (stub_env True (Inr scenario_response) (Inl disk_full)) default_knowledge =
      Inr default_knowledge_dump"
    by (simp add: stub_env_def recorded_yaml_dump_def)
  have g: "\<And>parts. generate_content (stub_env True (Inr scenario_response) (Inl disk_full)) parts
      = Inr scenario_response"
    by (simp add: stub_env_def)
  have w: "\<And>path data. write_yaml_file (stub_env True (Inr scenario_response) (Inl disk_full)) path data
      = Inl disk_full"
    by (simp add: stub_env_def)
  have k: "knowledge (self fresh_world) = default_knowledge" by (simp add: fresh_world_def)
  show ?thesis
    by (simp add: update_configuration_body_def bind_prog_def call_ext_def get_self_def log_def
          try_except_def raise_def ret_def d1 d2 k g l w parse_yaml_safely_cases
          save_yaml_def is_Exception_all Let_def)
qed

theorem request_exceptions_reraised_witness:
  "snd (process_request_body (stub_env True (Inl transport_error) (Inr ()))
          (str ''Deploy a Node.js app'') fresh_world) = Inl transport_error \<and>
   snd (process_request (stub_env True (Inl transport_error) (Inr ()))
          (str ''Deploy a Node.js app'') fresh_world) = Inl transport_error \<and>
   snd (update_configuration_body (stub_env True (Inr scenario_response) (Inl disk_full))
          scenario_document (str ''Increase CPU to 4 vCPUs'') fresh_world) = Inl disk_full \<and>
   snd (update_configuration (stub_env True (Inr scenario_response) (Inl disk_full))
          scenario_document (str ''Increase CPU to 4 vCPUs'') fresh_world) = Inl disk_full"
proof -
  have b1: "snd (process_request_body (stub_env True (Inl transport_error) (Inr ()))
          (str ''Deploy a Node.js app'') fresh_world) = Inl transport_error"
    by (simp add: request_body_transport_failure)
  have b2: "snd (update_configuration_body (stub_env True (Inr scenario_response) (Inl disk_full))
          scenario_document (str ''Increase CPU to 4 vCPUs'') fresh_world) = Inl disk_full"
    by (rule update_body_disk_full)
  from request_exceptions_reraised [where env = "stub_env True (Inl transport_error) (Inr ())"
      and user_input = "str ''Deploy a Node.js app''" and s = fresh_world and e = transport_error] b1
  have r1: "snd (process_request (stub_env True (Inl transport_error) (Inr ()))
          (str ''Deploy a Node.js app'') fresh_world) = Inl transport_error"
    by simp
  from request_exceptions_reraised [where env = "stub_env True (Inr scenario_response) (Inl disk_full)"
      and current_config = scenario_document and update_request = "str ''Increase CPU to 4 vCPUs''"
      and s = fresh_world and e = disk_full] b2
  have r2: "snd (update_configuration (stub_env True (Inr scenario_response) (Inl disk_full))
          scenario_document (str ''Increase CPU to 4 vCPUs'') fresh_world) = Inl disk_full"
    by simp
  from b1 r1 b2 r2 show ?thesis by blast
qed

text \<open>
  C9: \<open>StreamlitICLAgent.process_request\<close> always returns; when its body raises, it reports
  the failure to the page and returns the mapping of \<open>error\<close> to the exception's message.
\<close>

theorem st_process_request_never_raises:
  "(\<exists>d. snd (st_process_request env user_input s) = Inr d) \<and>
   (snd (st_process_request_body env user_input s) = Inl e \<longrightarrow>
      st_process_request env user_input s =
        ((fst (st_process_request_body env user_input s))
           \<lparr>st_errors := st_errors (fst (st_process_request_body env user_input s)) @
              [str ''Error processing request: '' @ exn_str e]\<rparr>,
         Inr (YMap [(YStr (str ''error''), YStr (exn_str e))])))"
  by (cases "st_process_request_body env user_input s"; cases "snd (st_process_request_body env user_input s)")
     (auto simp: st_process_request_def prog_simps is_Exception_all bind_st_error)

text \<open>C9 at a remote call that fails.\<close>

theorem st_process_request_never_raises_witness:
  "snd (st_process_request_body (stub_env True (Inl transport_error) (Inr ()))
          (str ''Deploy a Node.js app'') fresh_st_world) = Inl transport_error \<and>
   st_process_request (stub_env True (Inl transport_error) (Inr ()))
          (str ''Deploy a Node.js app'') fresh_st_world =
     (fresh_st_world\<lparr>st_errors := [str ''Error processing request: quota exceeded'']\<rparr>,
      Inr (YMap [(YStr (str ''error''), YStr (str ''quota exceeded''))]))"
proof -
  have b: "st_process_request_body (stub_env True (Inl transport_error) (Inr ()))
          (str ''Deploy a Node.js app'') fresh_st_world = (fresh_st_world, Inl transport_error)"
    by (simp add: st_process_request_body_def prog_simps stub_env_def fresh_st_world_def
          recorded_yaml_dump_def)
  then have b1: "snd (st_process_request_body (stub_env True (Inl transport_error) (Inr ()))
          (str ''Deploy a Node.js app'') fresh_st_world) = Inl transport_error"
    by simp
  from st_process_request_never_raises [of "stub_env True (Inl transport_error) (Inr ())"
      "str ''Deploy a Node.js app''" fresh_st_world transport_error] b1
  have r: "st_process_request (stub_env True (Inl transport_error) (Inr ()))
          (str ''Deploy a Node.js app'') fresh_st_world =
     ((fst (st_process_request_body (stub_env True (Inl transport_error) (Inr ()))
          (str ''Deploy a Node.js app'') fresh_st_world))
           \<lparr>st_errors := st_errors (fst (st_process_request_body (stub_env True (Inl transport_error) (Inr ()))
          (str ''Deploy a Node.js app'') fresh_st_world)) @
              [str ''Error processing request: '' @ exn_str transport_error]\<rparr>,
         Inr (YMap [(YStr (str ''error''), YStr (exn_str transport_error))]))"
    by blast
  have m: "exn_str transport_error = str ''quota exceeded''"
    by (simp add: transport_error_def)
  have e: "st_errors fresh_st_world = []" by (simp add: fresh_st_world_def)
  have j: "str ''Error processing request: '' @ str ''quota exceeded'' =
      str ''Error processing request: quota exceeded''"
    by (simp add: str_def)
  from r have "st_process_request (stub_env True (Inl transport_error) (Inr ()))
          (str ''Deploy a Node.js app'') fresh_st_world =
     (fresh_st_world\<lparr>st_errors := [str ''Error processing request: quota exceeded'']\<rparr>,
      Inr (YMap [(YStr (str ''error''), YStr (str ''quota exceeded''))]))"
    unfolding b fst_conv m e j by simp
  with b1 show ?thesis by blast
qed

section \<open>Construction and the knowledge base\<close>

lemmas prog_defs = bind_prog_def call_ext_def get_self_def set_knowledge_def log_def raise_def
  ret_def try_except_def




























text \<open>
  C7, the failing run: the reference document exists and the model's answer does not
  parse. The parser turns the failure into the error document, which is a non-empty
  mapping and so passes the check; construction completes with the error document as the
  knowledge base, not the default, and reports success.
\<close>

theorem unparsable_knowledge_kept:
  "snd (ICLAgent_init (stub_env True (Inr unparsable_response) (Inr ())) (str ''icl.pdf'') (str ''key'')
     (str ''configs'') []) = Inr () \<and>
   knowledge (self (fst (ICLAgent_init (stub_env True (Inr unparsable_response) (Inr ()))
     (str ''icl.pdf'') (str ''key'') (str ''configs'') []))) =
     YMap [(YStr (str ''error''), YStr (str ''Failed to parse YAML'')),
           (YStr (str ''timestamp''), YStr (str ''2025-01-01 12:00:00.000000''))] \<and>
   last (stdout (fst (ICLAgent_init (stub_env True (Inr unparsable_response) (Inr ()))
     (str ''icl.pdf'') (str ''key'') (str ''configs'') []))) =
     indicator (str ''success'') @ str '' Documentation processed successfully''"
proof -
  let ?E = "stub_env True (Inr unparsable_response) (Inr ())"
  have p: "\<And>path. path_exists ?E path = True" by (simp add: stub_env_def)
  have m: "\<And>dir. makedirs ?E dir = Inr ()" by (simp add: stub_env_def)
  have g: "\<And>key. genai_setup ?E key = Inr ()" by (simp add: stub_env_def)
  have t: "\<And>path. pdf_page_texts ?E path = Inr [str ''ICL reference'', []]"
    by (simp add: stub_env_def)
  have r: "\<And>parts. generate_content ?E parts = Inr unparsable_response"
    by (simp add: stub_env_def)
  have c: "clean_response unparsable_response = str '': : :''"
    by (simp add: unparsable_response_def clean_response_def fence_def str_def
          match_open_fence_def fence_tag_char_def py_strip_def isspace_def islinebreak_def)
  have l: "safe_load_all ?E (clean_response unparsable_response) =
      Inl (Exn YAMLError (str ''while parsing a block mapping''))"
    unfolding c by (simp add: stub_env_def recorded_safe_load_all_def str_def)
  have n: "now_str ?E = str ''2025-01-01 12:00:00.000000''" by (simp add: stub_env_def)
  show ?thesis
    by (simp add: ICLAgent_init_def load_knowledge_def load_knowledge_body_def prog_defs p m g t r
          parse_yaml_safely_cases l n error_document_def is_dict_def nonempty_dict_def
          is_Exception_all str_def)
qed

section \<open>The round trip through the sanitizer\<close>

text \<open>Each step of the sanitizer leaves a text alone that gives it nothing to do.\<close>

lemma sub_open_fence_id: "\<not> sublist fence t \<Longrightarrow> sub_open_fence t = t"
proof (induction t)
  case Nil
  then show ?case by simp
next
  case (Cons c cs)
  from Cons.prems have np: "\<not> prefix fence (c # cs)" and nf: "\<not> sublist fence cs"
    by (auto simp: sublist_Cons_right)
  from np have "match_open_fence (c # cs) = None" by (simp add: match_open_fence_def)
  with Cons.IH nf show ?case by simp
qed

lemma replace_fence_id: "\<not> sublist fence t \<Longrightarrow> py_replace fence [] t = t"
proof (induction t)
  case Nil
  then show ?case by (simp add: replace_fence_Nil)
next
  case (Cons c cs)
  from Cons.prems have np: "\<not> prefix fence (c # cs)" and nf: "\<not> sublist fence cs"
    by (auto simp: sublist_Cons_right)
  with Cons.IH show ?case by (simp add: replace_fence_Cons)
qed

lemma sub_comment_id: "35 \<notin> set t \<Longrightarrow> sub_comment t = t"
  by (induction t) auto

lemma replace_tab_id: "9 \<notin> set l \<Longrightarrow> py_replace [9] (str ''  '') l = l"
  by (induction l) (auto simp: replace_tab_Cons replace_tab_Nil simp del: py_replace.simps)

lemma py_strip_Nil_iff: "py_strip l = [] \<longleftrightarrow> list_all isspace l"
proof
  assume "py_strip l = []"
  then have a: "\<forall>x\<in>set (dropWhile isspace l). isspace x"
    by (simp add: py_strip_def)
  have "dropWhile isspace l = []"
  proof (rule ccontr)
    assume n: "dropWhile isspace l \<noteq> []"
    then have "\<not> isspace (hd (dropWhile isspace l))" by (rule hd_dropWhile)
    moreover from n have "hd (dropWhile isspace l) \<in> set (dropWhile isspace l)" by simp
    ultimately show False using a by blast
  qed
  then show "list_all isspace l" by (simp add: list_all_iff)
next
  assume "list_all isspace l"
  then show "py_strip l = []"
    by (auto simp: py_strip_def list_all_iff dest: set_dropWhileD)
qed

lemma islinebreak_isspace: "islinebreak c \<Longrightarrow> isspace c"
  by (auto simp: islinebreak_def isspace_def)

lemma py_strip_last: "py_strip t \<noteq> [] \<Longrightarrow> \<not> isspace (last (py_strip t))"
proof -
  assume n: "py_strip t \<noteq> []"
  define r where "r = dropWhile isspace (rev (dropWhile isspace t))"
  from n have rn: "r \<noteq> []" by (simp add: py_strip_def r_def)
  then have "\<not> isspace (hd r)" unfolding r_def by (rule hd_dropWhile)
  moreover have "last (py_strip t) = hd r"
    using rn by (simp add: py_strip_def r_def last_rev)
  ultimately show ?thesis by simp
qed

text \<open>
  Splitting at line feeds and joining with line feeds gives the text back, when it does
  not end in a line break.
\<close>

lemma splitlines_Nil_iff: "splitlines s = [] \<longleftrightarrow> s = []"
  by (cases s) (auto split: list.splits)

lemma py_join_Cons_Cons: "py_join sep ((c # l) # ls) = c # py_join sep (l # ls)"
  by (cases ls) simp_all

lemma join_splitlines:
  "only_lf_breaks u \<Longrightarrow> u = [] \<or> \<not> islinebreak (last u) \<Longrightarrow> py_join [10] (splitlines u) = u"
proof (induction u rule: splitlines.induct)
  case 1
  then show ?case by simp
next
  case (2 c cs)
  from "2.prems"(1) have oc: "only_lf_breaks cs" and c10: "islinebreak c \<longrightarrow> c = 10"
    by (auto simp: only_lf_breaks_def)
  show ?case
  proof (cases "islinebreak c")
    case True
    with c10 have c: "c = 10" by simp
    from "2.prems"(2) True obtain d ds where cs: "cs = d # ds" by (cases cs) auto
    have lcs: "cs = [] \<or> \<not> islinebreak (last cs)" using "2.prems"(2) cs by simp
    have ih: "py_join [10] (splitlines cs) = cs"
      using "2.IH"(2) [OF True cs] c oc lcs by simp
    obtain l ls where sp: "splitlines cs = l # ls"
      using cs splitlines_Nil_iff [of cs] by (cases "splitlines cs") auto
    have "splitlines (c # cs) = [] # splitlines cs" using True c cs by simp
    then have "py_join [10] (splitlines (c # cs)) = 10 # py_join [10] (splitlines cs)"
      using sp by simp
    with ih c show ?thesis by simp
  next
    case False
    show ?thesis
    proof (cases "splitlines cs")
      case Nil
      then have "cs = []" by (simp add: splitlines_Nil_iff)
      with False show ?thesis by simp
    next
      case (Cons l ls)
      then have csn: "cs \<noteq> []" using splitlines_Nil_iff [of cs] by auto
      then have lcs: "cs = [] \<or> \<not> islinebreak (last cs)" using "2.prems"(2) by simp
      have ih: "py_join [10] (splitlines cs) = cs" using "2.IH"(3) [OF False] oc lcs by simp
      have "splitlines (c # cs) = (c # l) # ls" using False Cons by simp
      then have "py_join [10] (splitlines (c # cs)) = c # py_join [10] (l # ls)"
        by (simp add: py_join_Cons_Cons)
      with ih Cons show ?thesis by simp
    qed
  qed
qed

lemma clean_response_plain:
  assumes h: "35 \<notin> set t" and tb: "9 \<notin> set t" and nf: "\<not> sublist fence t"
    and lf: "only_lf_breaks t" and nb: "no_blank_line t"
  shows "clean_response t = py_strip t"
proof (cases "t = []")
  case True
  then show ?thesis by (simp add: clean_response_def py_strip_def)
next
  case False
  define u where "u = py_strip t"
  have sub: "set u \<subseteq> set t"
    unfolding u_def using py_strip_sublist [of t] by (rule set_mono_sublist)
  have t3: "sub_comment (py_replace fence [] (sub_open_fence t)) = t"
    using h nf by (simp add: sub_open_fence_id replace_fence_id sub_comment_id)
  have keep: "filter (\<lambda>line. py_strip line \<noteq> []) (splitlines u) = splitlines u"
    using nb by (simp add: no_blank_line_def u_def py_strip_Nil_iff list_all_iff)
  have tabs: "map (py_replace [9] (str ''  '')) (splitlines u) = splitlines u"
  proof (rule map_idI)
    fix l
    assume "l \<in> set (splitlines u)"
    then have "set l \<subseteq> set u" using splitlines_sublist set_mono_sublist by blast
    with sub tb have "9 \<notin> set l" by blast
    then show "py_replace [9] (str ''  '') l = l" by (rule replace_tab_id)
  qed
  have ou: "only_lf_breaks u" using lf sub by (auto simp: only_lf_breaks_def list_all_iff)
  have lu: "u = [] \<or> \<not> islinebreak (last u)"
    using py_strip_last [of t] islinebreak_isspace unfolding u_def by blast
  have "py_join [10] (splitlines u) = u" using ou lu by (rule join_splitlines)
  then show ?thesis using False by (simp add: clean_response_def Let_def t3 u_def [symmetric] keep tabs)
qed

text \<open>
  C3 (as amended): let the serialization of a document contain no comment marker, no tab
  and no fence, no line break other than the line feed and no blank line. Then the
  sanitizer returns it with the surrounding white space stripped and nothing else
  changed, and the parser returns the document whenever the loader reads the document
  back from that stripped text.
\<close>

theorem plain_serialization_round_trip:
  assumes "yaml_dump env d = Inr t"
    and "35 \<notin> set t" and "9 \<notin> set t" and "\<not> sublist fence t"
    and "only_lf_breaks t" and "no_blank_line t"
    and "safe_load_all env (py_strip t) = Inr [d]"
  shows "clean_response t = py_strip t \<and>
         parse_yaml_safely env (clean_response t) s = (s, Inr d)"
proof -
  have c: "clean_response t = py_strip t" using assms(2-6) by (rule clean_response_plain)
  with assms(7) show ?thesis by (simp add: parse_yaml_safely_cases)
qed


text \<open>C3 at the document that maps \<open>a\<close> to 1, serialized as one line.\<close>

lemma fence_not_Nil: "fence \<noteq> []"
  by (simp add: fence_def)

theorem plain_serialization_round_trip_witness:
  "yaml_dump (stub_env True (Inr scenario_response) (Inr ())) (YMap [(YStr (str ''a''), YInt 1)]) =
     Inr (str ''a: 1'' @ [10]) \<and>
   35 \<notin> set (str ''a: 1'' @ [10]) \<and> 9 \<notin> set (str ''a: 1'' @ [10]) \<and>
   \<not> sublist fence (str ''a: 1'' @ [10]) \<and>
   only_lf_breaks (str ''a: 1'' @ [10]) \<and> no_blank_line (str ''a: 1'' @ [10]) \<and>
   safe_load_all (stub_env True (Inr scenario_response) (Inr ())) (py_strip (str ''a: 1'' @ [10])) =
     Inr [YMap [(YStr (str ''a''), YInt 1)]] \<and>
   clean_response (str ''a: 1'' @ [10]) = py_strip (str ''a: 1'' @ [10]) \<and>
   parse_yaml_safely (stub_env True (Inr scenario_response) (Inr ()))
     (clean_response (str ''a: 1'' @ [10])) fresh_world =
     (fresh_world, Inr (YMap [(YStr (str ''a''), YInt 1)]))"
proof -
  let ?E = "stub_env True (Inr scenario_response) (Inr ())"
  let ?t = "str ''a: 1'' @ [10]"
  have h1: "yaml_dump ?E (YMap [(YStr (str ''a''), YInt 1)]) = Inr ?t"
    by (simp add: stub_env_def recorded_yaml_dump_def default_knowledge_def)
  have h2: "35 \<notin> set ?t" by (simp add: str_def)
  have h3: "9 \<notin> set ?t" by (simp add: str_def)
  have h4: "\<not> sublist fence ?t"
    by (simp add: str_def sublist_fence_Cons fence_not_Nil)
  have h5: "only_lf_breaks ?t" by (simp add: only_lf_breaks_def str_def islinebreak_def)
  have st: "py_strip ?t = str ''a: 1''" by (simp add: py_strip_def str_def isspace_def)
  have h6: "no_blank_line ?t"
    unfolding no_blank_line_def st by (simp add: str_def islinebreak_def isspace_def)
  have h7: "safe_load_all ?E (py_strip ?t) = Inr [YMap [(YStr (str ''a''), YInt 1)]]"
    unfolding st by (simp add: stub_env_def recorded_safe_load_all_def str_def)
  from plain_serialization_round_trip [OF h1 h2 h3 h4 h5 h6 h7, of fresh_world]
    h1 h2 h3 h4 h5 h6 h7
  show ?thesis by blast
qed

text \<open>
  C3 as stated fails. A string value with a line feed in it (and no comment marker, tab
  or fence) is serialized as a quoted scalar in which a blank line stands for the line
  feed. The sanitizer drops the blank line, and the loader folds the line break that is
  left into a space: the document comes back changed.
\<close>

lemma clean_multiline_dump:
  "clean_response multiline_dump = py_join [10] [str ''a: '' @ [39] @ str ''x'', str ''  y'' @ [39]]"
  by (simp add: multiline_dump_def clean_response_def fence_def str_def match_open_fence_def
        fence_tag_char_def py_strip_def isspace_def islinebreak_def)

theorem round_trip_counterexample:
  "yaml_dump (stub_env True (Inr scenario_response) (Inr ())) multiline_document =
     Inr multiline_dump \<and>
   safe_load_all (stub_env True (Inr scenario_response) (Inr ())) multiline_dump =
     Inr [multiline_document] \<and>
   list_all comment_free (string_values multiline_document) \<and>
   snd (parse_yaml_safely (stub_env True (Inr scenario_response) (Inr ()))
          (clean_response multiline_dump) fresh_world) =
     Inr (YMap [(YStr (str ''a''), YStr (str ''x y''))]) \<and>
   YMap [(YStr (str ''a''), YStr (str ''x y''))] \<noteq> multiline_document"
proof -
  let ?E = "stub_env True (Inr scenario_response) (Inr ())"
  have a: "yaml_dump ?E multiline_document = Inr multiline_dump"
    by (simp add: stub_env_def recorded_yaml_dump_def default_knowledge_def
          multiline_document_def)
  have b: "safe_load_all ?E multiline_dump = Inr [multiline_document]"
    by (simp add: stub_env_def recorded_safe_load_all_def multiline_dump_def
          two_documents_text_def str_def)
  have c: "list_all comment_free (string_values multiline_document)"
    by (simp add: multiline_document_def comment_free_def str_def sublist_fence_Cons fence_not_Nil)
  have l: "safe_load_all ?E (clean_response multiline_dump) =
      Inr [YMap [(YStr (str ''a''), YStr (str ''x y''))]]"
    unfolding clean_multiline_dump
    by (simp add: stub_env_def recorded_safe_load_all_def multiline_dump_def
          two_documents_text_def str_def)
  have d: "snd (parse_yaml_safely ?E (clean_response multiline_dump) fresh_world) =
      Inr (YMap [(YStr (str ''a''), YStr (str ''x y''))])"
    by (simp add: parse_yaml_safely_cases l)
  have e: "YMap [(YStr (str ''a''), YStr (str ''x y''))] \<noteq> multiline_document"
    by (simp add: multiline_document_def str_def)
  from a b c d e show ?thesis by blast
qed

end
